theory Spec2Isabelle
  imports Main "HOL-Library.Char_ord" "HOL-Library.List_Lexorder"
begin

section \<open>Python strings\<close>

text \<open>
  A Python \<open>str\<close> is modelled as a \<open>string\<close>, a list of 8-bit characters read as the
  code points U+0000 to U+00FF. On these code points the functions below are what
  \<open>str.lower\<close>, \<open>str.strip\<close>, \<open>str.isalnum\<close>, \<open>str.startswith\<close> and the operator
  \<open>in\<close> compute. Strings are ordered by code point, lexicographically, as Python
  orders them.
\<close>

definition code_point :: "char \<Rightarrow> nat" where
  "code_point c = of_char c"

definition lower_char :: "char \<Rightarrow> char" where
  "lower_char c =
     (let n = code_point c in
      if (65 \<le> n \<and> n \<le> 90) \<or> (192 \<le> n \<and> n \<le> 222 \<and> n \<noteq> 215)
      then char_of (n + 32) else c)"

definition lower :: "string \<Rightarrow> string" where
  "lower s = map lower_char s"

definition isspace :: "char \<Rightarrow> bool" where
  "isspace c =
     (let n = code_point c in
      (9 \<le> n \<and> n \<le> 13) \<or> (28 \<le> n \<and> n \<le> 32) \<or> n = 133 \<or> n = 160)"

definition strip :: "string \<Rightarrow> string" where
  "strip s = rev (dropWhile isspace (rev (dropWhile isspace s)))"


definition isalnum_char :: "char \<Rightarrow> bool" where
  "isalnum_char c =
     (let n = code_point c in
      (48 \<le> n \<and> n \<le> 57) \<or> (65 \<le> n \<and> n \<le> 90) \<or> (97 \<le> n \<and> n \<le> 122) \<or>
      n = 170 \<or> n = 178 \<or> n = 179 \<or> n = 181 \<or> n = 185 \<or> n = 186 \<or>
      n = 188 \<or> n = 189 \<or> n = 190 \<or>
      (192 \<le> n \<and> n \<le> 255 \<and> n \<noteq> 215 \<and> n \<noteq> 247))"

text \<open>\<open>s.isalnum()\<close>: false on the empty string.\<close>

definition isalnum :: "string \<Rightarrow> bool" where
  "isalnum s = (s \<noteq> [] \<and> list_all isalnum_char s)"

text \<open>\<open>s.startswith(p)\<close>.\<close>

fun startswith :: "string \<Rightarrow> string \<Rightarrow> bool" where
  "startswith s [] = True"
| "startswith [] (p # ps) = False"
| "startswith (c # cs) (p # ps) = (c = p \<and> startswith cs ps)"

text \<open>\<open>p in s\<close> on strings: \<open>p\<close> occurs in \<open>s\<close> as a contiguous run.\<close>

fun contains :: "string \<Rightarrow> string \<Rightarrow> bool" where
  "contains p [] = (p = [])"
| "contains p (c # cs) = (startswith (c # cs) p \<or> contains p cs)"

text \<open>
  Truthiness of an \<open>Optional[str]\<close>: \<open>None\<close> and the empty string are false.
\<close>

definition truthy :: "string option \<Rightarrow> bool" where
  "truthy v = (case v of None \<Rightarrow> False | Some s \<Rightarrow> s \<noteq> [])"

text \<open>\<open>sorted(set(xs))\<close>: the distinct elements, ascending.\<close>

definition sorted_set :: "string list \<Rightarrow> string list" where
  "sorted_set xs = sort (remdups xs)"

text \<open>\<open>d.get(k, default)\<close> on a value that is absent (\<open>None\<close>) or present.\<close>

definition get_or :: "'a \<Rightarrow> 'a option \<Rightarrow> 'a" where
  "get_or d v = (case v of None \<Rightarrow> d | Some x \<Rightarrow> x)"

text \<open>\<open>v or default\<close> on an \<open>Optional[str]\<close>.\<close>

definition or_else :: "string option \<Rightarrow> string \<Rightarrow> string" where
  "or_else v d = (if truthy v then get_or d v else d)"


text \<open>\<open>str(v)\<close> on an \<open>Optional[str]\<close>: the string itself, and the text "None" for \<open>None\<close>.\<close>

definition py_str :: "string option \<Rightarrow> string" where
  "py_str v = (case v of None \<Rightarrow> ''None'' | Some s \<Rightarrow> s)"







section \<open>Data model\<close>

record CsvRow =
  name :: string
  set_input :: "string option"
  quantity :: int
  card_number :: "string option"
  scryfall_id :: "string option"
  is_commander :: bool

text \<open>
  The dataclass \<open>Card\<close>. Its fields \<open>name\<close>, \<open>set\<close> and \<open>keywords\<close> are \<open>card_name\<close>,
  \<open>set_code\<close> and \<open>card_keywords\<close> here; \<open>legalities\<close> is a dictionary from format name to status.
  A local variable of the source that bears the name of a field is primed.
\<close>

record Card =
  card_name :: string
  set_code :: "string option"
  collector_number :: "string option"
  type_line :: string
  color_identity :: "string list"
  legalities :: "string \<rightharpoonup> string"
  oracle_text :: string
  card_keywords :: "string list"
  is_basic_land :: bool

text \<open>
  The entries of \<open>issues\<close> and \<open>warnings\<close> are f-strings of the source. Each is
  modelled by a constructor that stands for the template and carries the values
  interpolated into it, in the order the template has them:
  \<^item> \<open>NoCommander\<close>: "No commander specified. Add --commander 'Name' or two names for partners."
  \<^item> \<open>NotEligible n\<close>: "Commander 'n' may not be eligible (not a Legendary Creature or explicitly allowed)."
  \<^item> \<open>NotBothPartner\<close>: "Two commanders detected, but they don't both have Partner/Friends forever."
  \<^item> \<open>TooManyCommanders\<close>: "More than two commanders marked. EDH supports one (or two with Partner)."
  \<^item> \<open>DeckSize t\<close>: "Deck must contain exactly 100 total cards including commander(s); found t."
  \<^item> \<open>Unresolved n s k\<close>: "Card could not be resolved on Scryfall: 'n' (set 's' number 'k')"
  \<^item> \<open>Banned n\<close>: "BANNED in Commander: n"
  \<^item> \<open>Singleton n k\<close>: "Singleton violation: n appears k times."
  \<^item> \<open>ColorMismatch n ci cc\<close>: "Color identity mismatch: n has ci not within commander identity cc."
  \<^item> \<open>NotLegal st n\<close> (a warning): "Not legal in Commander (status st): n"

  The templates begin with different fixed words, so messages of different templates
  are different strings.
\<close>

datatype issue =
    NoCommander
  | NotEligible string
  | NotBothPartner
  | TooManyCommanders
  | DeckSize int
  | Unresolved string "string option" "string option"
  | Banned string
  | Singleton string int
  | ColorMismatch string "string list" "string list"

datatype warning = NotLegal "string option" string

record DeckValidation =
  issues :: "issue list"
  warnings :: "warning list"
  deck_size :: int
  commander_names :: "string list"
  commander_color_id :: "string list"

definition ALLOWED_DUP_EXCEPTIONS :: "string set" where
  "ALLOWED_DUP_EXCEPTIONS = {''Relentless Rats'', ''Shadowborn Apostle''}"

text \<open>
  A card object of the Scryfall API, the dictionary \<open>card_obj\<close>: each field is the value
  under the key of that name (\<open>obj_id\<close> for "id", \<open>obj_set\<close> for "set", and so on), \<open>None\<close>
  when the key is absent. The values are typed as the API documents them.
\<close>

record ScryCard =
  obj_id :: "string option"
  obj_name :: "string option"
  obj_set :: "string option"
  obj_collector_number :: "string option"
  obj_type_line :: "string option"
  obj_color_identity :: "string list option"
  obj_legalities :: "(string \<rightharpoonup> string) option"
  obj_oracle_text :: "string option"
  obj_keywords :: "string list option"

definition from_scryfall :: "ScryCard \<Rightarrow> Card" where
  "from_scryfall d =
     (let type_line' = get_or '''' (obj_type_line d);
          is_basic = contains ''Basic Land'' type_line'
      in \<lparr>card_name = get_or '''' (obj_name d),
          set_code = obj_set d,
          collector_number = obj_collector_number d,
          type_line = type_line',
          color_identity = get_or [] (obj_color_identity d),
          legalities = get_or Map.empty (obj_legalities d),
          oracle_text = get_or '''' (obj_oracle_text d),
          card_keywords = get_or [] (obj_keywords d),
          is_basic_land = is_basic\<rparr>)"

text \<open>An entry of the set list of the API: the values under "name" and "code".\<close>

record ScrySet =
  st_name :: "string option"
  st_code :: "string option"

text \<open>
  A lookup key of the collection endpoint: the dictionaries \<open>{"id": i}\<close>,
  \<open>{"set": s, "collector_number": n}\<close>, \<open>{"name": n, "set": s}\<close> and \<open>{"name": n}\<close>.
\<close>

datatype lookup_key =
    ById "string option"
  | BySetNumber "string option" "string option"
  | ByNameSet string "string option"
  | ByName string

section \<open>CSV parsing\<close>

text \<open>
  \<open>load_csv\<close>. The file is given by the rows that \<open>csv.reader\<close> yields from it, each a
  list of cells, the header row first and a blank line as the empty list; opening and
  decoding the file and splitting it into cells are the library's. \<open>csv.DictReader\<close>
  is modelled as the library has it: the first row is \<open>fieldnames\<close>, blank rows are
  skipped, and the dictionary \<open>raw\<close> of a row maps each field name to its cell (the last
  cell under a repeated name), maps the field names beyond the end of a short row to
  \<open>None\<close>, and maps the key \<open>None\<close> to the list of the cells beyond the header in a long
  row.
\<close>











section \<open>Scryfall API helpers\<close>

text \<open>
  \<open>resolve_set_code\<close>. The list that \<open>get_all_sets(cache)\<close> returns is the parameter
  \<open>sets\<close>. Each of the two loops over it either returns from the function (\<open>Some\<close> of
  the returned value) or falls through (\<open>None\<close>).
\<close>

fun exact_name_loop :: "string \<Rightarrow> ScrySet list \<Rightarrow> string option option" where
  "exact_name_loop s [] = None"
| "exact_name_loop s (st # sets) =
     (if lower (get_or '''' (st_name st)) = lower s then Some (st_code st)
      else exact_name_loop s sets)"

fun contains_loop :: "string \<Rightarrow> ScrySet list \<Rightarrow> string option option" where
  "contains_loop s [] = None"
| "contains_loop s (st # sets) =
     (let nm = lower (get_or '''' (st_name st)) in
      if contains (lower s) nm then Some (st_code st)
      else contains_loop s sets)"

definition resolve_set_code :: "string option \<Rightarrow> ScrySet list \<Rightarrow> string option" where
  "resolve_set_code set_input' sets =
     (if \<not> truthy set_input' then None
      else
        let s = strip (get_or '''' set_input') in
        if 2 < length s \<and> length s \<le> 5 \<and> isalnum s \<and> \<not> contains '' '' s then Some (lower s)
        else (case exact_name_loop s sets of
                Some code \<Rightarrow> code
              | None \<Rightarrow>
                  (case contains_loop s sets of
                     Some code \<Rightarrow> code
                   | None \<Rightarrow> None)))"

definition row_matches_card :: "CsvRow \<Rightarrow> ScryCard \<Rightarrow> ScrySet list \<Rightarrow> bool" where
  "row_matches_card row card_obj sets =
     (if truthy (scryfall_id row) \<and> obj_id card_obj = scryfall_id row then True
      else
        let set_code' = resolve_set_code (set_input row) sets in
        if truthy set_code' \<and> truthy (card_number row) \<and>
           obj_set card_obj = set_code' \<and>
           py_str (obj_collector_number card_obj) = py_str (card_number row)
        then True
        else if lower (get_or '''' (obj_name card_obj)) = lower (name row)
        then (if truthy set_code' then obj_set card_obj = set_code' else True)
        else False)"

fun build_identifiers :: "CsvRow list \<Rightarrow> ScrySet list \<Rightarrow> lookup_key list" where
  "build_identifiers [] sets = []"
| "build_identifiers (r # rs) sets =
     (if truthy (scryfall_id r) then ById (scryfall_id r) # build_identifiers rs sets
      else
        let set_code' = resolve_set_code (set_input r) sets in
        if truthy set_code' \<and> truthy (card_number r)
        then BySetNumber set_code' (card_number r) # build_identifiers rs sets
        else if truthy set_code' then ByNameSet (name r) set_code' # build_identifiers rs sets
        else ByName (name r) # build_identifiers rs sets)"

text \<open>
  \<open>fetch_cards\<close>. The two endpoints are parameters: \<open>lookup_batch\<close> is the POST of one
  batch (\<open>Inl\<close> when the request raises or the answer has no "data"), \<open>lookup_exact\<close>
  the GET by exact name (\<open>None\<close> when anything in the \<open>try\<close> block raises).
  \<open>result\<close> is the dictionary from row index to card.
\<close>

definition MAX_BATCH :: nat where
  "MAX_BATCH = 75"

datatype fetch_error = RequestFailed | UnexpectedFormat

text \<open>The inner loop \<open>for idx in unresolved_indices\<close>, for one returned card object.\<close>

fun assign_card ::
  "CsvRow list \<Rightarrow> ScrySet list \<Rightarrow> ScryCard \<Rightarrow> nat list \<Rightarrow> (nat \<rightharpoonup> Card) \<Rightarrow> (nat \<rightharpoonup> Card)" where
  "assign_card rows sets card_obj [] result = result"
| "assign_card rows sets card_obj (idx # idxs) result =
     (if result idx \<noteq> None then assign_card rows sets card_obj idxs result
      else if row_matches_card (rows ! idx) card_obj sets
      then result(idx \<mapsto> from_scryfall card_obj)
      else assign_card rows sets card_obj idxs result)"

text \<open>The loop \<open>for card_obj in data["data"]\<close>.\<close>

fun match_batch ::
  "CsvRow list \<Rightarrow> ScrySet list \<Rightarrow> nat list \<Rightarrow> ScryCard list \<Rightarrow> (nat \<rightharpoonup> Card) \<Rightarrow> (nat \<rightharpoonup> Card)" where
  "match_batch rows sets unresolved_indices [] result = result"
| "match_batch rows sets unresolved_indices (card_obj # data) result =
     match_batch rows sets unresolved_indices data
       (assign_card rows sets card_obj unresolved_indices result)"

text \<open>\<open>range(0, n, MAX_BATCH)\<close>.\<close>

definition batch_starts :: "nat \<Rightarrow> nat list" where
  "batch_starts n = map (\<lambda>k. k * MAX_BATCH) [0..<(n + MAX_BATCH - 1) div MAX_BATCH]"

fun fetch_batches ::
  "CsvRow list \<Rightarrow> ScrySet list \<Rightarrow> (lookup_key list \<Rightarrow> fetch_error + ScryCard list) \<Rightarrow>
   lookup_key list \<Rightarrow> nat list \<Rightarrow> (nat \<rightharpoonup> Card) \<Rightarrow> fetch_error + (nat \<rightharpoonup> Card)" where
  "fetch_batches rows sets lookup_batch identifiers [] result = Inr result"
| "fetch_batches rows sets lookup_batch identifiers (i # starts) result =
     (let batch = take MAX_BATCH (drop i identifiers) in
      case lookup_batch batch of
        Inl e \<Rightarrow> Inl e
      | Inr data \<Rightarrow>
          let unresolved_indices = [i..<min (i + length batch) (length rows)]
          in fetch_batches rows sets lookup_batch identifiers starts
               (match_batch rows sets unresolved_indices data result))"

text \<open>The fallback pass over \<open>enumerate(rows)\<close>.\<close>

fun fallback_pass ::
  "(string \<Rightarrow> ScryCard option) \<Rightarrow> nat \<Rightarrow> CsvRow list \<Rightarrow> (nat \<rightharpoonup> Card) \<Rightarrow> (nat \<rightharpoonup> Card)" where
  "fallback_pass lookup_exact idx [] result = result"
| "fallback_pass lookup_exact idx (r # rs) result =
     (if result idx = None
      then (case lookup_exact (name r) of
              Some d \<Rightarrow> fallback_pass lookup_exact (Suc idx) rs (result(idx \<mapsto> from_scryfall d))
            | None \<Rightarrow> fallback_pass lookup_exact (Suc idx) rs result)
      else fallback_pass lookup_exact (Suc idx) rs result)"

definition fetch_cards ::
  "CsvRow list \<Rightarrow> ScrySet list \<Rightarrow> (lookup_key list \<Rightarrow> fetch_error + ScryCard list) \<Rightarrow>
   (string \<Rightarrow> ScryCard option) \<Rightarrow> fetch_error + (nat \<rightharpoonup> Card)" where
  "fetch_cards rows sets lookup_batch lookup_exact =
     (let identifiers = build_identifiers rows sets in
      case fetch_batches rows sets lookup_batch identifiers
             (batch_starts (length identifiers)) Map.empty of
        Inl e \<Rightarrow> Inl e
      | Inr result \<Rightarrow> Inr (fallback_pass lookup_exact 0 rows result))"

section \<open>Commander rules checks\<close>

text \<open>
  \<open>detect_commanders\<close>: the loop over \<open>enumerate(rows)\<close>, the index threaded
  explicitly. \<open>cards_by_index\<close> is the dictionary from row index to card.
\<close>

fun detect_from :: "nat \<Rightarrow> CsvRow list \<Rightarrow> (nat \<rightharpoonup> Card) \<Rightarrow> Card list" where
  "detect_from idx [] cards_by_index = []"
| "detect_from idx (r # rs) cards_by_index =
     (if is_commander r
      then (case cards_by_index idx of
              Some c \<Rightarrow> c # detect_from (Suc idx) rs cards_by_index
            | None \<Rightarrow> detect_from (Suc idx) rs cards_by_index)
      else detect_from (Suc idx) rs cards_by_index)"

definition detect_commanders :: "CsvRow list \<Rightarrow> (nat \<rightharpoonup> Card) \<Rightarrow> Card list" where
  "detect_commanders rows cards_by_index = detect_from 0 rows cards_by_index"

definition has_partner :: "Card \<Rightarrow> bool" where
  "has_partner c =
     (if list_ex (\<lambda>k. startswith (lower k) ''partner'') (card_keywords c) then True
      else let text = lower (oracle_text c)
           in contains ''partner'' text \<or> contains ''friends forever'' text)"

definition is_eligible_commander :: "Card \<Rightarrow> bool" where
  "is_eligible_commander c =
     (let t = type_line c in
      if contains ''Legendary Creature'' t then True
      else if contains ''can be your commander'' (lower (oracle_text c)) then True
      else False)"

section \<open>The deck validator\<close>

text \<open>The commander branch of \<open>validate_deck\<close>: the issues it appends and \<open>commander_colors\<close>.\<close>

definition commander_check :: "Card list \<Rightarrow> issue list \<times> string list" where
  "commander_check commanders =
     (case commanders of
        [] \<Rightarrow> ([NoCommander], [])
      | [c] \<Rightarrow>
          ((if \<not> is_eligible_commander c then [NotEligible (card_name c)] else []),
           sorted_set (color_identity c))
      | [c0, c1] \<Rightarrow>
          ((if \<not> (has_partner c0 \<and> has_partner c1) then [NotBothPartner] else []),
           sorted_set (color_identity c0 @ color_identity c1))
      | _ \<Rightarrow> ([TooManyCommanders], []))"

text \<open>\<open>name_counts\<close>: the dictionary built by the loop over the rows.\<close>

fun count_names :: "(string \<rightharpoonup> int) \<Rightarrow> CsvRow list \<Rightarrow> (string \<rightharpoonup> int)" where
  "count_names name_counts [] = name_counts"
| "count_names name_counts (r # rs) =
     count_names
       (name_counts(name r \<mapsto> (case name_counts (name r) of None \<Rightarrow> 0 | Some k \<Rightarrow> k) + quantity r))
       rs"

text \<open>
  One iteration of the loop over \<open>enumerate(rows)\<close>, on the accumulated issues and
  warnings. In the singleton check \<open>name_counts.get(c.name, 0) > 1\<close> holds only for a
  key that is present, so the subscript \<open>name_counts[c.name]\<close> of the message reads
  that entry.
\<close>

definition check_row ::
  "string list \<Rightarrow> (string \<rightharpoonup> int) \<Rightarrow> CsvRow \<Rightarrow> Card option \<Rightarrow>
   issue list \<times> warning list \<Rightarrow> issue list \<times> warning list" where
  "check_row commander_colors name_counts r co acc =
     (case co of
        None \<Rightarrow> (fst acc @ [Unresolved (name r) (set_input r) (card_number r)], snd acc)
      | Some c \<Rightarrow>
          (let legality = legalities c ''commander'';
               acc1 =
                 (if legality = Some ''banned'' then (fst acc @ [Banned (card_name c)], snd acc)
                  else if legality \<noteq> Some ''legal'' \<and> legality \<noteq> Some ''restricted''
                  then (fst acc, snd acc @ [NotLegal legality (card_name c)])
                  else acc);
               acc2 =
                 (if \<not> (is_basic_land c \<or> card_name c \<in> ALLOWED_DUP_EXCEPTIONS)
                  then (case name_counts (card_name c) of
                          None \<Rightarrow> acc1
                        | Some k \<Rightarrow>
                            if k > 1 then (fst acc1 @ [Singleton (card_name c) k], snd acc1)
                            else acc1)
                  else acc1);
               acc3 =
                 (if commander_colors \<noteq> []
                  then (if \<not> set (color_identity c) \<subseteq> set commander_colors
                        then (fst acc2 @
                                [ColorMismatch (card_name c) (sorted_set (color_identity c))
                                   commander_colors],
                              snd acc2)
                        else acc2)
                  else acc2)
           in acc3))"

fun check_rows ::
  "string list \<Rightarrow> (string \<rightharpoonup> int) \<Rightarrow> (nat \<rightharpoonup> Card) \<Rightarrow> nat \<Rightarrow> CsvRow list \<Rightarrow>
   issue list \<times> warning list \<Rightarrow> issue list \<times> warning list" where
  "check_rows commander_colors name_counts cards_by_index idx [] acc = acc"
| "check_rows commander_colors name_counts cards_by_index idx (r # rs) acc =
     check_rows commander_colors name_counts cards_by_index (Suc idx) rs
       (check_row commander_colors name_counts r (cards_by_index idx) acc)"

definition validate_deck :: "CsvRow list \<Rightarrow> (nat \<rightharpoonup> Card) \<Rightarrow> DeckValidation" where
  "validate_deck rows cards_by_index =
     (let commanders = detect_commanders rows cards_by_index;
          (issues0, commander_colors) = commander_check commanders;
          total_cards = sum_list (map quantity rows);
          issues1 = (if total_cards \<noteq> 100 then issues0 @ [DeckSize total_cards] else issues0);
          name_counts = count_names Map.empty rows;
          (issues2, warnings2) =
            check_rows commander_colors name_counts cards_by_index 0 rows (issues1, [])
      in \<lparr>issues = issues2, warnings = warnings2, deck_size = total_cards,
          commander_names = map card_name commanders,
          commander_color_id = commander_colors\<rparr>)"

section \<open>Notions used in the statements\<close>

text \<open>
  What one iteration of the validator's loop appends to the issues and to the
  warnings, and what the whole loop appends, from row index \<open>idx\<close> on.
\<close>

definition row_issues ::
  "string list \<Rightarrow> (string \<rightharpoonup> int) \<Rightarrow> CsvRow \<Rightarrow> Card option \<Rightarrow> issue list" where
  "row_issues cc nc r co = fst (check_row cc nc r co ([], []))"

definition row_warnings ::
  "string list \<Rightarrow> (string \<rightharpoonup> int) \<Rightarrow> CsvRow \<Rightarrow> Card option \<Rightarrow> warning list" where
  "row_warnings cc nc r co = snd (check_row cc nc r co ([], []))"

fun rows_issues ::
  "string list \<Rightarrow> (string \<rightharpoonup> int) \<Rightarrow> (nat \<rightharpoonup> Card) \<Rightarrow> nat \<Rightarrow> CsvRow list \<Rightarrow> issue list" where
  "rows_issues cc nc cards idx [] = []"
| "rows_issues cc nc cards idx (r # rs) =
     row_issues cc nc r (cards idx) @ rows_issues cc nc cards (Suc idx) rs"

fun rows_warnings ::
  "string list \<Rightarrow> (string \<rightharpoonup> int) \<Rightarrow> (nat \<rightharpoonup> Card) \<Rightarrow> nat \<Rightarrow> CsvRow list \<Rightarrow> warning list" where
  "rows_warnings cc nc cards idx [] = []"
| "rows_warnings cc nc cards idx (r # rs) =
     row_warnings cc nc r (cards idx) @ rows_warnings cc nc cards (Suc idx) rs"

text \<open>The total quantity across all rows bearing the name \<open>n\<close>.\<close>

definition total_quantity :: "CsvRow list \<Rightarrow> string \<Rightarrow> int" where
  "total_quantity rows n = sum_list (map quantity (filter (\<lambda>r. name r = n) rows))"

text \<open>The issues of the commander branch, and the resolution issue.\<close>

fun is_commander_issue :: "issue \<Rightarrow> bool" where
  "is_commander_issue NoCommander = True"
| "is_commander_issue (NotEligible n) = True"
| "is_commander_issue NotBothPartner = True"
| "is_commander_issue TooManyCommanders = True"
| "is_commander_issue _ = False"

fun is_unresolved_issue :: "issue \<Rightarrow> bool" where
  "is_unresolved_issue (Unresolved n s k) = True"
| "is_unresolved_issue _ = False"

text \<open>
  A partner-capable card, in the words of the specification: a keyword beginning with
  "partner", case-insensitively, or rules text containing "partner" or "friends
  forever" (the text is lowercased too, as \<open>_has_partner\<close> does).
\<close>

definition partner_capable :: "Card \<Rightarrow> bool" where
  "partner_capable c =
     ((\<exists>k \<in> set (card_keywords c). startswith (lower k) ''partner'') \<or>
      contains ''partner'' (lower (oracle_text c)) \<or>
      contains ''friends forever'' (lower (oracle_text c)))"

text \<open>
  Set-hint resolution in the words of the specification: a token of length 3 to 5 that
  consists only of letters and digits (what \<open>str.isalnum\<close> accepts) is the set code,
  lowercased; otherwise the first set of the list whose name equals the hint,
  case-insensitively, gives its code; otherwise the first set whose name contains the
  hint, case-insensitively; otherwise there is no set code.
\<close>

definition resolve_spec :: "string option \<Rightarrow> ScrySet list \<Rightarrow> string option" where
  "resolve_spec hint sets =
     (case hint of
        None \<Rightarrow> None
      | Some h \<Rightarrow>
          if h = [] then None
          else
            let s = strip h in
            if 3 \<le> length s \<and> length s \<le> 5 \<and> list_all isalnum_char s then Some (lower s)
            else (case find (\<lambda>st. lower (get_or '''' (st_name st)) = lower s) sets of
                    Some st \<Rightarrow> st_code st
                  | None \<Rightarrow>
                      (case find (\<lambda>st. contains (lower s) (lower (get_or '''' (st_name st)))) sets of
                         Some st \<Rightarrow> st_code st
                       | None \<Rightarrow> None)))"

text \<open>The lookup key of a row, by the priority of the specification.\<close>

definition lookup_key_of :: "ScrySet list \<Rightarrow> CsvRow \<Rightarrow> lookup_key" where
  "lookup_key_of sets r =
     (if truthy (scryfall_id r) then ById (scryfall_id r)
      else if truthy (resolve_spec (set_input r) sets) \<and> truthy (card_number r)
      then BySetNumber (resolve_spec (set_input r) sets) (card_number r)
      else if truthy (resolve_spec (set_input r) sets)
      then ByNameSet (name r) (resolve_spec (set_input r) sets)
      else ByName (name r))"

text \<open>Two result dictionaries that have the same unresolved rows among \<open>idxs\<close> and agree on \<open>U\<close>.\<close>

definition same_unresolved :: "nat list \<Rightarrow> nat set \<Rightarrow> (nat \<rightharpoonup> Card) \<Rightarrow> (nat \<rightharpoonup> Card) \<Rightarrow> bool" where
  "same_unresolved idxs U r1 r2 \<longleftrightarrow>
     (\<forall>idx \<in> set idxs. (r1 idx = None \<longleftrightarrow> r2 idx = None) \<and> (idx \<in> U \<longrightarrow> r1 idx = r2 idx))"









section \<open>Example decks\<close>

definition ex_row :: "string \<Rightarrow> int \<Rightarrow> bool \<Rightarrow> CsvRow" where
  "ex_row n q cmd =
     \<lparr>name = n, set_input = None, quantity = q, card_number = None,
      scryfall_id = None, is_commander = cmd\<rparr>"

definition ex_card :: "string \<Rightarrow> string \<Rightarrow> string list \<Rightarrow> string \<Rightarrow> string list \<Rightarrow> Card" where
  "ex_card n t ci status kws =
     \<lparr>card_name = n, set_code = Some ''cmd'', collector_number = Some ''1'',
      type_line = t, color_identity = ci,
      legalities = [''commander'' \<mapsto> status],
      oracle_text = '''', card_keywords = kws,
      is_basic_land = contains ''Basic Land'' t\<rparr>"

definition ex_sol_ring :: Card where
  "ex_sol_ring = ex_card ''Sol Ring'' ''Artifact'' [] ''legal'' []"

definition ex_forest :: Card where
  "ex_forest = ex_card ''Forest'' ''Basic Land'' [''G''] ''legal'' []"

definition ex_bolt :: Card where
  "ex_bolt = ex_card ''Lightning Bolt'' ''Instant'' [''R''] ''legal'' []"

definition ex_lotus :: Card where
  "ex_lotus = ex_card ''Black Lotus'' ''Artifact'' [] ''banned'' []"

definition ex_blast :: Card where
  "ex_blast = ex_card ''Blast from the Past'' ''Instant'' [''G''] ''not_legal'' []"

definition ex_thrasios :: Card where
  "ex_thrasios = ex_card ''Thrasios'' ''Legendary Creature'' [''G''] ''legal'' [''Partner'']"

definition ex_tymna :: Card where
  "ex_tymna = ex_card ''Tymna'' ''Legendary Creature'' [''W''] ''legal'' [''Partner'']"

text \<open>No commander: two copies of Sol Ring and thirty Forests.\<close>

definition ex_rows :: "CsvRow list" where
  "ex_rows = [ex_row ''Sol Ring'' 2 False, ex_row ''Forest'' 30 False]"

definition ex_cards :: "nat \<rightharpoonup> Card" where
  "ex_cards = [0 \<mapsto> ex_sol_ring, 1 \<mapsto> ex_forest]"

text \<open>One commander, Sol Ring.\<close>

definition one_rows :: "CsvRow list" where
  "one_rows = [ex_row ''Sol Ring'' 1 True, ex_row ''Forest'' 1 False]"

text \<open>Two commanders with Partner, and three commanders.\<close>

definition two_rows :: "CsvRow list" where
  "two_rows = [ex_row ''Thrasios'' 1 True, ex_row ''Tymna'' 1 True]"

definition two_cards :: "nat \<rightharpoonup> Card" where
  "two_cards = [0 \<mapsto> ex_thrasios, 1 \<mapsto> ex_tymna]"

definition three_rows :: "CsvRow list" where
  "three_rows = [ex_row ''Thrasios'' 1 True, ex_row ''Tymna'' 1 True, ex_row ''Sol Ring'' 1 True]"

definition three_cards :: "nat \<rightharpoonup> Card" where
  "three_cards = [0 \<mapsto> ex_thrasios, 1 \<mapsto> ex_tymna, 2 \<mapsto> ex_sol_ring]"

text \<open>
  Forest as the commander, a red card, a banned card, a card that is not legal, and a
  row that did not resolve.
\<close>

definition mixed_rows :: "CsvRow list" where
  "mixed_rows =
     [ex_row ''Forest'' 1 True, ex_row ''Lightning Bolt'' 1 False,
      ex_row ''Black Lotus'' 1 False, ex_row ''Blast from the Past'' 1 False,
      ex_row ''No Such Card'' 1 False]"

definition mixed_cards :: "nat \<rightharpoonup> Card" where
  "mixed_cards = [0 \<mapsto> ex_forest, 1 \<mapsto> ex_bolt, 2 \<mapsto> ex_lotus, 3 \<mapsto> ex_blast]"

text \<open>A set list, rows with more and less identifying data, and card objects.\<close>

definition ex_sets :: "ScrySet list" where
  "ex_sets =
     [\<lparr>st_name = Some ''Commander 2011'', st_code = Some ''cmd''\<rparr>,
      \<lparr>st_name = Some ''Commander 2013'', st_code = Some ''c13''\<rparr>,
      \<lparr>st_name = Some ''Limited Edition Alpha'', st_code = Some ''lea''\<rparr>]"

definition key_rows :: "CsvRow list" where
  "key_rows =
     [\<lparr>name = ''Sol Ring'', set_input = Some ''Commander 2013'', quantity = 1,
       card_number = Some ''259'', scryfall_id = Some ''abc-123'', is_commander = False\<rparr>,
      \<lparr>name = ''Sol Ring'', set_input = Some ''CMD'', quantity = 1,
       card_number = Some ''259'', scryfall_id = None, is_commander = False\<rparr>,
      \<lparr>name = ''Black Lotus'', set_input = Some ''alpha'', quantity = 1,
       card_number = None, scryfall_id = None, is_commander = False\<rparr>,
      \<lparr>name = ''Forest'', set_input = Some ''No Such Set'', quantity = 1,
       card_number = Some ''7'', scryfall_id = None, is_commander = False\<rparr>]"

definition ex_obj :: "string \<Rightarrow> string \<Rightarrow> string \<Rightarrow> string \<Rightarrow> ScryCard" where
  "ex_obj i n s k =
     \<lparr>obj_id = Some i, obj_name = Some n, obj_set = Some s, obj_collector_number = Some k,
      obj_type_line = Some ''Artifact'', obj_color_identity = Some [], obj_legalities = None,
      obj_oracle_text = None, obj_keywords = None\<rparr>"

text \<open>Two rows with the same name, and two card objects.\<close>

definition dup_rows :: "CsvRow list" where
  "dup_rows = [ex_row ''Forest'' 1 False, ex_row ''Forest'' 2 False]"

definition forest_obj :: ScryCard where
  "forest_obj = ex_obj ''f-1'' ''Forest'' ''cmd'' ''300''"

definition island_obj :: ScryCard where
  "island_obj = ex_obj ''i-1'' ''Island'' ''cmd'' ''301''"







section \<open>The validator's output, iteration by iteration\<close>

lemma check_row_acc:
  "check_row cc nc r co acc =
     (fst acc @ row_issues cc nc r co, snd acc @ row_warnings cc nc r co)"
  by (cases acc)
     (simp add: check_row_def row_issues_def row_warnings_def Let_def split: option.splits)

lemma check_rows_acc:
  "check_rows cc nc cards idx rs acc =
     (fst acc @ rows_issues cc nc cards idx rs, snd acc @ rows_warnings cc nc cards idx rs)"
  by (induction rs arbitrary: idx acc) (simp_all add: check_row_acc)

lemma rows_issues_mem:
  "x \<in> set (rows_issues cc nc cards idx rs) \<longleftrightarrow>
     (\<exists>j<length rs. x \<in> set (row_issues cc nc (rs ! j) (cards (idx + j))))"
proof (induction rs arbitrary: idx)
  case Nil
  then show ?case by simp
next
  case (Cons r rs)
  show ?case
    by (auto simp: Cons.IH less_Suc_eq_0_disj)
qed

lemma rows_warnings_mem:
  "x \<in> set (rows_warnings cc nc cards idx rs) \<longleftrightarrow>
     (\<exists>j<length rs. x \<in> set (row_warnings cc nc (rs ! j) (cards (idx + j))))"
proof (induction rs arbitrary: idx)
  case Nil
  then show ?case by simp
next
  case (Cons r rs)
  show ?case
    by (auto simp: Cons.IH less_Suc_eq_0_disj)
qed

lemma row_issues_None:
  "row_issues cc nc r None = [Unresolved (name r) (set_input r) (card_number r)]"
  by (simp add: row_issues_def check_row_def)

lemma row_warnings_None: "row_warnings cc nc r None = []"
  by (simp add: row_warnings_def check_row_def)

lemma row_issues_Some:
  "row_issues cc nc r (Some c) =
     (if legalities c ''commander'' = Some ''banned'' then [Banned (card_name c)] else []) @
     (if \<not> is_basic_land c \<and> card_name c \<notin> ALLOWED_DUP_EXCEPTIONS \<and>
         1 < (case nc (card_name c) of None \<Rightarrow> 0 | Some k \<Rightarrow> k)
      then [Singleton (card_name c) (case nc (card_name c) of None \<Rightarrow> 0 | Some k \<Rightarrow> k)]
      else []) @
     (if cc \<noteq> [] \<and> \<not> set (color_identity c) \<subseteq> set cc
      then [ColorMismatch (card_name c) (sorted_set (color_identity c)) cc] else [])"
  by (simp add: row_issues_def check_row_def Let_def split: option.splits)

lemma row_warnings_Some:
  "row_warnings cc nc r (Some c) =
     (if legalities c ''commander'' \<noteq> Some ''banned'' \<and>
         legalities c ''commander'' \<noteq> Some ''legal'' \<and>
         legalities c ''commander'' \<noteq> Some ''restricted''
      then [NotLegal (legalities c ''commander'') (card_name c)] else [])"
  by (simp add: row_warnings_def check_row_def Let_def split: option.splits)

lemma count_names_get:
  "(case count_names m rows n of None \<Rightarrow> 0 | Some k \<Rightarrow> k) =
     (case m n of None \<Rightarrow> 0 | Some k \<Rightarrow> k) + total_quantity rows n"
  by (induction rows arbitrary: m) (simp_all add: total_quantity_def)

lemma name_counts_total:
  "(case count_names Map.empty rows n of None \<Rightarrow> 0 | Some k \<Rightarrow> k) = total_quantity rows n"
  using count_names_get [of Map.empty rows n] by simp

lemma validate_issues:
  "issues (validate_deck rows cards) =
     fst (commander_check (detect_commanders rows cards)) @
     (if sum_list (map quantity rows) \<noteq> 100 then [DeckSize (sum_list (map quantity rows))]
      else []) @
     rows_issues (snd (commander_check (detect_commanders rows cards)))
       (count_names Map.empty rows) cards 0 rows"
  by (simp add: validate_deck_def Let_def check_rows_acc split: prod.splits)

lemma validate_warnings:
  "warnings (validate_deck rows cards) =
     rows_warnings (snd (commander_check (detect_commanders rows cards)))
       (count_names Map.empty rows) cards 0 rows"
  by (simp add: validate_deck_def Let_def check_rows_acc split: prod.splits)

lemma validate_size: "deck_size (validate_deck rows cards) = sum_list (map quantity rows)"
  by (simp add: validate_deck_def Let_def split: prod.splits)

lemma validate_cc:
  "commander_color_id (validate_deck rows cards) =
     snd (commander_check (detect_commanders rows cards))"
  by (simp add: validate_deck_def Let_def split: prod.splits)

lemma commander_check_kinds:
  "DeckSize t \<notin> set (fst (commander_check cs))"
  "Singleton n k \<notin> set (fst (commander_check cs))"
  "Banned n \<notin> set (fst (commander_check cs))"
  "ColorMismatch n ci cc \<notin> set (fst (commander_check cs))"
  "Unresolved n s u \<notin> set (fst (commander_check cs))"
  by (auto simp: commander_check_def split: list.splits)

lemma rows_issues_no_size: "DeckSize t \<notin> set (rows_issues cc nc cards idx rs)"
proof -
  have "DeckSize t \<notin> set (row_issues cc nc r co)" for r co
    by (cases co) (simp_all add: row_issues_None row_issues_Some)
  then show ?thesis
    by (simp add: rows_issues_mem)
qed

section \<open>Deck size\<close>

text \<open>
  C5. The reported deck size is the sum of all row quantities, and a deck-size issue
  citing a total \<open>t\<close> is among the issues exactly when \<open>t\<close> is that sum and the sum is
  not 100.
\<close>

theorem deck_size_issue:
  "deck_size (validate_deck rows cards) = sum_list (map quantity rows) \<and>
   (DeckSize t \<in> set (issues (validate_deck rows cards)) \<longleftrightarrow>
      t = sum_list (map quantity rows) \<and> sum_list (map quantity rows) \<noteq> 100)"
  by (auto simp: validate_size validate_issues commander_check_kinds rows_issues_no_size)

section \<open>Singleton rule\<close>

lemma singleton_issue_iff:
  "Singleton n k \<in> set (issues (validate_deck rows cards)) \<longleftrightarrow>
     k = total_quantity rows n \<and> 1 < k \<and> n \<notin> ALLOWED_DUP_EXCEPTIONS \<and>
     (\<exists>i<length rows. \<exists>c. cards i = Some c \<and> card_name c = n \<and> \<not> is_basic_land c)"
proof -
  let ?cc = "snd (commander_check (detect_commanders rows cards))"
  let ?nc = "count_names Map.empty rows"
  have row: "Singleton n k \<in> set (row_issues ?cc ?nc r co) \<longleftrightarrow>
      (\<exists>c. co = Some c \<and> card_name c = n \<and> \<not> is_basic_land c \<and>
           n \<notin> ALLOWED_DUP_EXCEPTIONS \<and> k = total_quantity rows n \<and> 1 < k)" for r co
    by (cases co) (auto simp: row_issues_None row_issues_Some name_counts_total)
  have "Singleton n k \<in> set (issues (validate_deck rows cards)) \<longleftrightarrow>
      Singleton n k \<in> set (rows_issues ?cc ?nc cards 0 rows)"
    by (simp add: validate_issues commander_check_kinds)
  also have "\<dots> \<longleftrightarrow>
      (\<exists>j<length rows. Singleton n k \<in> set (row_issues ?cc ?nc (rows ! j) (cards j)))"
    by (simp add: rows_issues_mem)
  finally show ?thesis
    unfolding row by blast
qed

text \<open>
  C1. For a resolved card \<open>c\<close> that is not a basic land and whose name is not in the
  allow-list, the singleton issue naming \<open>c\<close> and the total quantity of the rows bearing
  the name of \<open>c\<close> is among the issues exactly when that total exceeds 1, and no
  singleton issue names \<open>c\<close> with another count. The iteration of a card \<open>c'\<close> that is a
  basic land or bears an allow-listed name appends no singleton issue, whatever the
  counts; and no singleton issue at all names \<open>n\<close> when \<open>n\<close> is allow-listed or every
  resolved card named \<open>n\<close> is a basic land.
\<close>

theorem singleton_rule:
  "(i < length rows \<and> cards i = Some c \<and> \<not> is_basic_land c \<and>
    card_name c \<notin> ALLOWED_DUP_EXCEPTIONS \<longrightarrow>
      (Singleton (card_name c) (total_quantity rows (card_name c))
         \<in> set (issues (validate_deck rows cards))
       \<longleftrightarrow> 1 < total_quantity rows (card_name c)) \<and>
      (Singleton (card_name c) k \<in> set (issues (validate_deck rows cards))
       \<longrightarrow> k = total_quantity rows (card_name c))) \<and>
   ((is_basic_land c' \<or> card_name c' \<in> ALLOWED_DUP_EXCEPTIONS) \<and>
    Singleton n' k' \<in> set (fst (check_row cc nc r (Some c') acc)) \<longrightarrow>
      Singleton n' k' \<in> set (fst acc)) \<and>
   ((n \<in> ALLOWED_DUP_EXCEPTIONS \<or>
     (\<forall>j d. j < length rows \<and> cards j = Some d \<and> card_name d = n \<longrightarrow> is_basic_land d)) \<longrightarrow>
      Singleton n m \<notin> set (issues (validate_deck rows cards)))"
proof (intro conjI impI)
  assume "i < length rows \<and> cards i = Some c \<and> \<not> is_basic_land c \<and>
    card_name c \<notin> ALLOWED_DUP_EXCEPTIONS"
  then show "(Singleton (card_name c) (total_quantity rows (card_name c))
         \<in> set (issues (validate_deck rows cards)))
       \<longleftrightarrow> 1 < total_quantity rows (card_name c)"
    unfolding singleton_issue_iff by blast
next
  assume "Singleton (card_name c) k \<in> set (issues (validate_deck rows cards))"
  then show "k = total_quantity rows (card_name c)"
    by (simp add: singleton_issue_iff)
next
  assume "(is_basic_land c' \<or> card_name c' \<in> ALLOWED_DUP_EXCEPTIONS) \<and>
    Singleton n' k' \<in> set (fst (check_row cc nc r (Some c') acc))"
  then show "Singleton n' k' \<in> set (fst acc)"
    by (auto simp: check_row_acc row_issues_Some split: if_splits)
next
  assume "n \<in> ALLOWED_DUP_EXCEPTIONS \<or>
     (\<forall>j d. j < length rows \<and> cards j = Some d \<and> card_name d = n \<longrightarrow> is_basic_land d)"
  then show "Singleton n m \<notin> set (issues (validate_deck rows cards))"
    unfolding singleton_issue_iff by blast
qed

theorem singleton_rule_witness:
  "Singleton ''Sol Ring'' 2 \<in> set (issues (validate_deck ex_rows ex_cards)) \<and>
   Singleton ''Forest'' 30 \<notin> set (issues (validate_deck ex_rows ex_cards)) \<and>
   Singleton ''Forest'' 30 \<notin>
     set (fst (check_row [] (count_names Map.empty ex_rows) (ex_rows ! 1) (Some ex_forest)
                 ([], [])))"
  using singleton_rule [of 0 ex_rows ex_cards ex_sol_ring 2 ex_forest "''Forest''" 30 "[]"
      "count_names Map.empty ex_rows" "ex_rows ! 1" "([], [])" "''Forest''" 30]
  by (simp add: ex_rows_def ex_cards_def ex_row_def ex_card_def ex_sol_ring_def ex_forest_def
      total_quantity_def ALLOWED_DUP_EXCEPTIONS_def)

section \<open>Commander cardinality\<close>

lemma has_partner_capable: "has_partner c = partner_capable c"
  by (simp add: has_partner_def partner_capable_def list_ex_iff Let_def)

lemma row_issues_not_commander: "filter is_commander_issue (row_issues cc nc r co) = []"
  by (cases co) (simp_all add: row_issues_None row_issues_Some)

lemma rows_issues_not_commander:
  "filter is_commander_issue (rows_issues cc nc cards idx rs) = []"
  by (induction rs arbitrary: idx) (simp_all add: row_issues_not_commander)

lemma commander_check_all:
  "filter is_commander_issue (fst (commander_check cs)) = fst (commander_check cs)"
  by (simp add: commander_check_def split: list.splits)

lemma commander_issues_eq:
  "filter is_commander_issue (issues (validate_deck rows cards)) =
     fst (commander_check (detect_commanders rows cards))"
  by (simp add: validate_issues commander_check_all rows_issues_not_commander)

lemma set_sorted_set: "set (sorted_set xs) = set xs"
  by (simp add: sorted_set_def)

lemma commander_check_many:
  assumes "2 < length cs"
  shows "commander_check cs = ([TooManyCommanders], [])"
proof (cases cs)
  case Nil
  with assms show ?thesis by simp
next
  case outer: (Cons a as)
  show ?thesis
  proof (cases as)
    case Nil
    with assms outer show ?thesis by simp
  next
    case middle: (Cons b bs)
    show ?thesis
    proof (cases bs)
      case Nil
      with assms outer middle show ?thesis by simp
    next
      case (Cons d ds)
      with outer middle show ?thesis
        by (simp add: commander_check_def)
    qed
  qed
qed

text \<open>
  C2. The issues of the commander branch, as they stand among the issues of the
  validator, and the commander color identity, by the number of detected commanders:
  none gives the no-commander issue and the empty identity; one gives the eligibility
  issue exactly when its type line lacks "Legendary Creature" and its lowercased rules
  text lacks "can be your commander", and the color identity of that card; two give the
  partner issue exactly when one of them is not partner-capable, and the union of both
  identities; more than two give the too-many issue and the empty identity.
\<close>

theorem commander_cardinality:
  "(detect_commanders rows cards = [] \<longrightarrow>
      filter is_commander_issue (issues (validate_deck rows cards)) = [NoCommander] \<and>
      commander_color_id (validate_deck rows cards) = []) \<and>
   (detect_commanders rows cards = [c] \<longrightarrow>
      filter is_commander_issue (issues (validate_deck rows cards)) =
        (if \<not> contains ''Legendary Creature'' (type_line c) \<and>
            \<not> contains ''can be your commander'' (lower (oracle_text c))
         then [NotEligible (card_name c)] else []) \<and>
      commander_color_id (validate_deck rows cards) = sorted_set (color_identity c) \<and>
      set (commander_color_id (validate_deck rows cards)) = set (color_identity c)) \<and>
   (detect_commanders rows cards = [c0, c1] \<longrightarrow>
      filter is_commander_issue (issues (validate_deck rows cards)) =
        (if \<not> partner_capable c0 \<or> \<not> partner_capable c1 then [NotBothPartner] else []) \<and>
      commander_color_id (validate_deck rows cards) =
        sorted_set (color_identity c0 @ color_identity c1) \<and>
      set (commander_color_id (validate_deck rows cards)) =
        set (color_identity c0) \<union> set (color_identity c1)) \<and>
   (2 < length (detect_commanders rows cards) \<longrightarrow>
      filter is_commander_issue (issues (validate_deck rows cards)) = [TooManyCommanders] \<and>
      commander_color_id (validate_deck rows cards) = [])"
proof (intro conjI impI)
  assume "2 < length (detect_commanders rows cards)"
  then have "commander_check (detect_commanders rows cards) = ([TooManyCommanders], [])"
    by (rule commander_check_many)
  then show "filter is_commander_issue (issues (validate_deck rows cards)) = [TooManyCommanders]"
    and "commander_color_id (validate_deck rows cards) = []"
    by (simp_all add: commander_issues_eq validate_cc)
qed (simp_all add: commander_issues_eq validate_cc commander_check_def
       is_eligible_commander_def has_partner_capable set_sorted_set)

lemma lower_Partner: "lower ''Partner'' = ''partner''"
  by code_simp


lemma lower_Nil: "lower [] = []" by (simp add: lower_def)

theorem commander_cardinality_witness:
  "filter is_commander_issue (issues (validate_deck ex_rows ex_cards)) = [NoCommander] \<and>
   commander_color_id (validate_deck ex_rows ex_cards) = [] \<and>
   filter is_commander_issue (issues (validate_deck one_rows ex_cards)) = [NotEligible ''Sol Ring''] \<and>
   commander_color_id (validate_deck one_rows ex_cards) = [] \<and>
   filter is_commander_issue (issues (validate_deck two_rows two_cards)) = [] \<and>
   commander_color_id (validate_deck two_rows two_cards) = [''G'', ''W''] \<and>
   filter is_commander_issue (issues (validate_deck three_rows three_cards)) = [TooManyCommanders] \<and>
   commander_color_id (validate_deck three_rows three_cards) = []"
proof -
  have h0: "detect_commanders ex_rows ex_cards = []"
    by (simp add: detect_commanders_def ex_rows_def ex_cards_def ex_row_def)
  have h1: "detect_commanders one_rows ex_cards = [ex_sol_ring]"
    by (simp add: detect_commanders_def one_rows_def ex_cards_def ex_row_def)
  have h2: "detect_commanders two_rows two_cards = [ex_thrasios, ex_tymna]"
    by (simp add: detect_commanders_def two_rows_def two_cards_def ex_row_def)
  have h3: "2 < length (detect_commanders three_rows three_cards)"
    by (simp add: detect_commanders_def three_rows_def three_cards_def ex_row_def)
  have p: "partner_capable ex_thrasios" "partner_capable ex_tymna"
    by (simp_all add: partner_capable_def ex_thrasios_def ex_tymna_def ex_card_def lower_Partner)
  have e: "\<not> contains ''Legendary Creature'' (type_line ex_sol_ring)"
      "\<not> contains ''can be your commander'' (lower (oracle_text ex_sol_ring))"
    by (simp_all add: ex_sol_ring_def ex_card_def lower_Nil)
  have s: "sorted_set [''G'', ''W''] = [''G'', ''W'']"
    by code_simp
  have c: "sorted_set (color_identity ex_sol_ring) = []"
    "sorted_set (color_identity ex_thrasios @ color_identity ex_tymna) = [''G'', ''W'']"
    by (simp_all add: ex_sol_ring_def ex_thrasios_def ex_tymna_def ex_card_def s)
       (simp add: sorted_set_def)
  have n: "card_name ex_sol_ring = ''Sol Ring''"
    by (simp add: ex_sol_ring_def ex_card_def)
  show ?thesis
    using commander_cardinality [of ex_rows ex_cards]
      commander_cardinality [of one_rows ex_cards ex_sol_ring]
      commander_cardinality [of two_rows two_cards _ ex_thrasios ex_tymna]
      commander_cardinality [of three_rows three_cards]
    by (simp add: h0 h1 h2 h3 p e c n)
qed

section \<open>Color identity containment\<close>

lemma color_issue_iff:
  "ColorMismatch n ci cc \<in> set (issues (validate_deck rows cards)) \<longleftrightarrow>
     cc = commander_color_id (validate_deck rows cards) \<and> cc \<noteq> [] \<and>
     (\<exists>i<length rows. \<exists>c. cards i = Some c \<and> card_name c = n \<and>
        ci = sorted_set (color_identity c) \<and> \<not> set (color_identity c) \<subseteq> set cc)"
proof -
  let ?cc = "snd (commander_check (detect_commanders rows cards))"
  let ?nc = "count_names Map.empty rows"
  have row: "ColorMismatch n ci cc \<in> set (row_issues ?cc ?nc r co) \<longleftrightarrow>
      (\<exists>c. co = Some c \<and> card_name c = n \<and> ci = sorted_set (color_identity c) \<and>
           cc = ?cc \<and> cc \<noteq> [] \<and> \<not> set (color_identity c) \<subseteq> set cc)" for r co
    by (cases co) (auto simp: row_issues_None row_issues_Some)
  have "ColorMismatch n ci cc \<in> set (issues (validate_deck rows cards)) \<longleftrightarrow>
      ColorMismatch n ci cc \<in> set (rows_issues ?cc ?nc cards 0 rows)"
    by (simp add: validate_issues commander_check_kinds)
  also have "\<dots> \<longleftrightarrow>
      (\<exists>j<length rows. ColorMismatch n ci cc \<in> set (row_issues ?cc ?nc (rows ! j) (cards j)))"
    by (simp add: rows_issues_mem)
  finally show ?thesis
    unfolding row validate_cc by blast
qed

text \<open>
  C4. When the commander color identity is not empty, every resolved card whose color
  identity is not a subset of it has a color-identity issue among the issues, naming
  the card, its sorted colors and the commander identity. When the commander color
  identity is empty, no color-identity issue is among the issues.
\<close>

theorem color_identity_containment:
  "(i < length rows \<and> cards i = Some c \<and>
    commander_color_id (validate_deck rows cards) \<noteq> [] \<and>
    \<not> set (color_identity c) \<subseteq> set (commander_color_id (validate_deck rows cards)) \<longrightarrow>
      ColorMismatch (card_name c) (sorted_set (color_identity c))
        (commander_color_id (validate_deck rows cards))
      \<in> set (issues (validate_deck rows cards))) \<and>
   (commander_color_id (validate_deck rows cards) = [] \<longrightarrow>
      ColorMismatch n ci cc \<notin> set (issues (validate_deck rows cards)))"
  unfolding color_issue_iff by blast

lemma mixed_commanders: "detect_commanders mixed_rows mixed_cards = [ex_forest]"
  by (simp add: detect_commanders_def mixed_rows_def mixed_cards_def ex_row_def)

lemma mixed_colors: "commander_color_id (validate_deck mixed_rows mixed_cards) = [''G'']"
  by (simp add: validate_cc mixed_commanders commander_check_def ex_forest_def ex_card_def
      sorted_set_def)

lemma ex_no_commanders: "detect_commanders ex_rows ex_cards = []"
  by (simp add: detect_commanders_def ex_rows_def ex_cards_def ex_row_def)

lemma ex_colors: "commander_color_id (validate_deck ex_rows ex_cards) = []"
  by (simp add: validate_cc ex_no_commanders commander_check_def)

theorem color_identity_containment_witness:
  "ColorMismatch ''Lightning Bolt'' [''R''] [''G'']
     \<in> set (issues (validate_deck mixed_rows mixed_cards)) \<and>
   ColorMismatch ''Forest'' [''G''] [] \<notin> set (issues (validate_deck ex_rows ex_cards))"
proof -
  have a: "1 < length mixed_rows" "mixed_cards 1 = Some ex_bolt"
    by (simp_all add: mixed_rows_def mixed_cards_def)
  have b: "card_name ex_bolt = ''Lightning Bolt''" "color_identity ex_bolt = [''R'']"
    "sorted_set [''R''] = [''R'']"
    by (simp_all add: ex_bolt_def ex_card_def sorted_set_def)
  show ?thesis
    using color_identity_containment [of 1 mixed_rows mixed_cards ex_bolt]
      color_identity_containment [of _ ex_rows ex_cards _ "''Forest''" "[''G'']" "[]"] a
    by (simp add: b mixed_colors ex_colors)
qed

section \<open>Format legality\<close>

lemma banned_issue_iff:
  "Banned n \<in> set (issues (validate_deck rows cards)) \<longleftrightarrow>
     (\<exists>i<length rows. \<exists>c. cards i = Some c \<and> card_name c = n \<and>
        legalities c ''commander'' = Some ''banned'')"
proof -
  let ?cc = "snd (commander_check (detect_commanders rows cards))"
  let ?nc = "count_names Map.empty rows"
  have row: "Banned n \<in> set (row_issues ?cc ?nc r co) \<longleftrightarrow>
      (\<exists>c. co = Some c \<and> card_name c = n \<and> legalities c ''commander'' = Some ''banned'')"
    for r co
    by (cases co) (auto simp: row_issues_None row_issues_Some)
  have "Banned n \<in> set (issues (validate_deck rows cards)) \<longleftrightarrow>
      Banned n \<in> set (rows_issues ?cc ?nc cards 0 rows)"
    by (simp add: validate_issues commander_check_kinds)
  also have "\<dots> \<longleftrightarrow>
      (\<exists>j<length rows. Banned n \<in> set (row_issues ?cc ?nc (rows ! j) (cards j)))"
    by (simp add: rows_issues_mem)
  finally show ?thesis
    unfolding row by blast
qed

lemma not_legal_warning_iff:
  "NotLegal st n \<in> set (warnings (validate_deck rows cards)) \<longleftrightarrow>
     (\<exists>i<length rows. \<exists>c. cards i = Some c \<and> card_name c = n \<and>
        legalities c ''commander'' = st \<and> st \<noteq> Some ''banned'' \<and>
        st \<noteq> Some ''legal'' \<and> st \<noteq> Some ''restricted'')"
proof -
  let ?cc = "snd (commander_check (detect_commanders rows cards))"
  let ?nc = "count_names Map.empty rows"
  have row: "NotLegal st n \<in> set (row_warnings ?cc ?nc r co) \<longleftrightarrow>
      (\<exists>c. co = Some c \<and> card_name c = n \<and> legalities c ''commander'' = st \<and>
        st \<noteq> Some ''banned'' \<and> st \<noteq> Some ''legal'' \<and> st \<noteq> Some ''restricted'')"
    for r co
    by (cases co) (auto simp: row_warnings_None row_warnings_Some)
  have "NotLegal st n \<in> set (warnings (validate_deck rows cards)) \<longleftrightarrow>
      (\<exists>j<length rows. NotLegal st n \<in> set (row_warnings ?cc ?nc (rows ! j) (cards j)))"
    by (simp add: validate_warnings rows_warnings_mem)
  then show ?thesis
    unfolding row by blast
qed

text \<open>
  C9. For a resolved card \<open>c\<close> with the status \<open>legalities c ''commander''\<close> (\<open>None\<close> when
  the card has no status for the format): the status "banned" puts the issue \<open>Banned\<close>
  with the name of the card among the issues, and the iteration of the card appends no
  warning; a status other than "banned", "legal" and "restricted", an absent one
  included, puts the warning citing the status and the name among the warnings, is the
  only warning of the iteration, and the iteration appends no \<open>Banned\<close> issue; the
  statuses "legal" and "restricted" append neither a warning nor a \<open>Banned\<close> issue.
\<close>

theorem legality_classification:
  "(i < length rows \<and> cards i = Some c \<and> legalities c ''commander'' = Some ''banned'' \<longrightarrow>
      Banned (card_name c) \<in> set (issues (validate_deck rows cards)) \<and>
      row_warnings cc nc r (Some c) = []) \<and>
   (i < length rows \<and> cards i = Some c \<and> legalities c ''commander'' \<noteq> Some ''banned'' \<and>
    legalities c ''commander'' \<noteq> Some ''legal'' \<and>
    legalities c ''commander'' \<noteq> Some ''restricted'' \<longrightarrow>
      NotLegal (legalities c ''commander'') (card_name c)
        \<in> set (warnings (validate_deck rows cards)) \<and>
      row_warnings cc nc r (Some c) = [NotLegal (legalities c ''commander'') (card_name c)] \<and>
      Banned n \<notin> set (row_issues cc nc r (Some c))) \<and>
   (legalities c ''commander'' = Some ''legal'' \<or>
    legalities c ''commander'' = Some ''restricted'' \<longrightarrow>
      row_warnings cc nc r (Some c) = [] \<and>
      Banned n \<notin> set (row_issues cc nc r (Some c)))"
proof (intro conjI impI)
  assume "i < length rows \<and> cards i = Some c \<and> legalities c ''commander'' = Some ''banned''"
  then show "Banned (card_name c) \<in> set (issues (validate_deck rows cards))"
    unfolding banned_issue_iff by blast
next
  assume "i < length rows \<and> cards i = Some c \<and> legalities c ''commander'' \<noteq> Some ''banned'' \<and>
    legalities c ''commander'' \<noteq> Some ''legal'' \<and>
    legalities c ''commander'' \<noteq> Some ''restricted''"
  then show "NotLegal (legalities c ''commander'') (card_name c)
        \<in> set (warnings (validate_deck rows cards))"
    unfolding not_legal_warning_iff by blast
qed (auto simp: row_warnings_Some row_issues_Some)

theorem legality_classification_witness:
  "Banned ''Black Lotus'' \<in> set (issues (validate_deck mixed_rows mixed_cards)) \<and>
   NotLegal (Some ''not_legal'') ''Blast from the Past''
     \<in> set (warnings (validate_deck mixed_rows mixed_cards)) \<and>
   row_warnings [''G''] Map.empty (mixed_rows ! 1) (Some ex_bolt) = [] \<and>
   Banned ''Lightning Bolt'' \<notin> set (row_issues [''G''] Map.empty (mixed_rows ! 1) (Some ex_bolt))"
proof -
  have a: "2 < length mixed_rows" "mixed_cards 2 = Some ex_lotus"
    "3 < length mixed_rows" "mixed_cards 3 = Some ex_blast"
    by (simp_all add: mixed_rows_def mixed_cards_def)
  have b: "legalities ex_lotus ''commander'' = Some ''banned''"
    "legalities ex_blast ''commander'' = Some ''not_legal''"
    "legalities ex_bolt ''commander'' = Some ''legal''"
    "card_name ex_lotus = ''Black Lotus''" "card_name ex_blast = ''Blast from the Past''"
    by (simp_all add: ex_lotus_def ex_blast_def ex_bolt_def ex_card_def)
  show ?thesis
    using legality_classification [of 2 mixed_rows mixed_cards ex_lotus]
      legality_classification [of 3 mixed_rows mixed_cards ex_blast]
      legality_classification [of _ _ _ ex_bolt "[''G'']" Map.empty "mixed_rows ! 1"
        "''Lightning Bolt''"] a
    by (simp add: b)
qed

section \<open>Rows that did not resolve\<close>

lemma upt_Suc_shift: "[0..<Suc n] = 0 # map Suc [0..<n]"
  by (simp add: upt_conv_Cons map_Suc_upt del: upt_Suc)

lemma rows_issues_unresolved:
  "filter is_unresolved_issue (rows_issues cc nc cards idx rs) =
     map (\<lambda>j. Unresolved (name (rs ! j)) (set_input (rs ! j)) (card_number (rs ! j)))
       (filter (\<lambda>j. cards (idx + j) = None) [0..<length rs])"
proof (induction rs arbitrary: idx)
  case Nil
  then show ?case by simp
next
  case (Cons r rs)
  have row: "filter is_unresolved_issue (row_issues cc nc r (cards idx)) =
      (if cards idx = None then [Unresolved (name r) (set_input r) (card_number r)] else [])"
    by (cases "cards idx") (simp_all add: row_issues_None row_issues_Some)
  show ?case
    by (simp add: row Cons.IH upt_Suc_shift filter_map comp_def del: upt_Suc)
qed

lemma commander_check_resolved:
  "filter is_unresolved_issue (fst (commander_check cs)) = []"
  by (simp add: commander_check_def split: list.splits)

lemma warnings_from_resolved:
  assumes "w \<in> set (warnings (validate_deck rows cards))"
  shows "\<exists>i<length rows. \<exists>c. cards i = Some c \<and>
           w = NotLegal (legalities c ''commander'') (card_name c)"
proof -
  from assms obtain j where j: "j < length rows"
    and w: "w \<in> set (row_warnings (snd (commander_check (detect_commanders rows cards)))
                (count_names Map.empty rows) (rows ! j) (cards j))"
    by (auto simp: validate_warnings rows_warnings_mem)
  from w obtain c where "cards j = Some c"
    by (cases "cards j") (simp_all add: row_warnings_None)
  with w j show ?thesis
    by (auto simp: row_warnings_Some split: if_splits)
qed

text \<open>
  C10. The iteration of a row with no resolved card appends exactly one issue, the
  resolution issue naming the row's name, set input and card number, and appends no
  warning. Among the issues of the validator the resolution issues are exactly those of
  the rows with no card, one for each, in row order; and every warning of the validator
  is the legality warning of a resolved card.
\<close>

theorem unresolved_rows:
  "check_row cc nc r None acc =
     (fst acc @ [Unresolved (name r) (set_input r) (card_number r)], snd acc) \<and>
   filter is_unresolved_issue (issues (validate_deck rows cards)) =
     map (\<lambda>i. Unresolved (name (rows ! i)) (set_input (rows ! i)) (card_number (rows ! i)))
       (filter (\<lambda>i. cards i = None) [0..<length rows]) \<and>
   (w \<in> set (warnings (validate_deck rows cards)) \<longrightarrow>
      (\<exists>i<length rows. \<exists>c. cards i = Some c \<and>
         w = NotLegal (legalities c ''commander'') (card_name c)))"
proof (intro conjI impI)
  show "check_row cc nc r None acc =
     (fst acc @ [Unresolved (name r) (set_input r) (card_number r)], snd acc)"
    by (simp add: check_row_def)
next
  show "filter is_unresolved_issue (issues (validate_deck rows cards)) =
     map (\<lambda>i. Unresolved (name (rows ! i)) (set_input (rows ! i)) (card_number (rows ! i)))
       (filter (\<lambda>i. cards i = None) [0..<length rows])"
    using rows_issues_unresolved [of _ _ cards 0 rows]
    by (simp add: validate_issues commander_check_resolved)
next
  assume "w \<in> set (warnings (validate_deck rows cards))"
  then show "\<exists>i<length rows. \<exists>c. cards i = Some c \<and>
         w = NotLegal (legalities c ''commander'') (card_name c)"
    by (rule warnings_from_resolved)
qed

theorem unresolved_rows_witness:
  "check_row [] Map.empty (mixed_rows ! 4) None ([], []) =
     ([Unresolved ''No Such Card'' None None], []) \<and>
   filter is_unresolved_issue (issues (validate_deck mixed_rows mixed_cards)) =
     [Unresolved ''No Such Card'' None None] \<and>
   (\<exists>i<length mixed_rows. \<exists>c. mixed_cards i = Some c \<and>
      NotLegal (Some ''not_legal'') ''Blast from the Past'' =
      NotLegal (legalities c ''commander'') (card_name c))"
proof -
  have w: "NotLegal (Some ''not_legal'') ''Blast from the Past''
      \<in> set (warnings (validate_deck mixed_rows mixed_cards))"
    unfolding not_legal_warning_iff
    by (rule exI [of _ 3])
       (simp add: mixed_rows_def mixed_cards_def ex_blast_def ex_card_def)
  have u: "filter (\<lambda>i. mixed_cards i = None) [0..<length mixed_rows] = [4]"
    by (simp add: mixed_rows_def mixed_cards_def upt_conv_Cons)
  have r: "mixed_rows ! 4 = ex_row ''No Such Card'' 1 False"
    by (simp add: mixed_rows_def)
  show ?thesis
    using unresolved_rows [of "[]" Map.empty "mixed_rows ! 4" "([], [])" mixed_rows mixed_cards
        "NotLegal (Some ''not_legal'') ''Blast from the Past''"] w
    by (simp add: u r ex_row_def)
qed

section \<open>The row-to-card matcher\<close>

text \<open>
  C7. The matcher returns true exactly when one of its three rules holds, tried in this
  order: the row has an external identifier and the candidate bears it; the row
  resolves to a set code and has a collector number, the candidate's set code equals
  the resolved one and the collector numbers are equal as strings (\<open>str\<close> of the
  candidate's value, which is "None" for an absent one); the names are equal
  case-insensitively and, when the row resolves to a set code, the candidate's set code
  equals it. In particular a row with an external identifier matches every candidate
  bearing that identifier, whatever the names and sets, and the matcher returns false
  when no rule holds.
\<close>

theorem matcher_rules:
  "(row_matches_card row card_obj sets \<longleftrightarrow>
      (truthy (scryfall_id row) \<and> obj_id card_obj = scryfall_id row) \<or>
      (truthy (resolve_set_code (set_input row) sets) \<and> truthy (card_number row) \<and>
       obj_set card_obj = resolve_set_code (set_input row) sets \<and>
       py_str (obj_collector_number card_obj) = py_str (card_number row)) \<or>
      (lower (get_or '''' (obj_name card_obj)) = lower (name row) \<and>
       (truthy (resolve_set_code (set_input row) sets) \<longrightarrow>
          obj_set card_obj = resolve_set_code (set_input row) sets))) \<and>
   (scryfall_id row = Some i \<and> i \<noteq> [] \<and> obj_id card_obj = Some i \<longrightarrow>
      row_matches_card row card_obj sets)"
  by (auto simp: row_matches_card_def Let_def truthy_def)

lemma matcher_eval:
  "resolve_set_code (set_input (key_rows ! 2)) ex_sets = Some ''alpha''"
  "lower ''black lotus'' = lower (name (key_rows ! 2))"
  "lower ''Mox Pearl'' \<noteq> lower (name (key_rows ! 2))"
  by code_simp+

theorem matcher_rules_witness:
  "row_matches_card (key_rows ! 0) (ex_obj ''abc-123'' ''Mana Crypt'' ''lea'' ''1'') ex_sets \<and>
   row_matches_card (key_rows ! 2) (ex_obj ''x'' ''black lotus'' ''alpha'' ''5'') ex_sets \<and>
   \<not> row_matches_card (key_rows ! 2) (ex_obj ''x'' ''black lotus'' ''leb'' ''5'') ex_sets \<and>
   \<not> row_matches_card (key_rows ! 2) (ex_obj ''x'' ''Mox Pearl'' ''alpha'' ''5'') ex_sets"
proof -
  have r: "scryfall_id (key_rows ! 0) = Some ''abc-123''" "scryfall_id (key_rows ! 2) = None"
    "card_number (key_rows ! 2) = None"
    by (simp_all add: key_rows_def)
  show ?thesis
    using matcher_rules [of "key_rows ! 0" "ex_obj ''abc-123'' ''Mana Crypt'' ''lea'' ''1''"
        ex_sets "''abc-123''"]
      matcher_rules [of "key_rows ! 2" "ex_obj ''x'' ''black lotus'' ''alpha'' ''5''" ex_sets]
      matcher_rules [of "key_rows ! 2" "ex_obj ''x'' ''black lotus'' ''leb'' ''5''" ex_sets]
      matcher_rules [of "key_rows ! 2" "ex_obj ''x'' ''Mox Pearl'' ''alpha'' ''5''" ex_sets]
      matcher_eval
    by (simp add: r ex_obj_def truthy_def get_or_def)
qed

section \<open>The identifier builder\<close>

lemma exact_name_loop_find:
  "exact_name_loop s sets =
     map_option st_code (find (\<lambda>st. lower (get_or '''' (st_name st)) = lower s) sets)"
  by (induction sets) simp_all

lemma contains_loop_find:
  "contains_loop s sets =
     map_option st_code (find (\<lambda>st. contains (lower s) (lower (get_or '''' (st_name st)))) sets)"
  by (induction sets) (simp_all add: Let_def)

lemma contains_single: "contains [c] s \<longleftrightarrow> c \<in> set s"
  by (induction s) auto

lemma space_not_alnum: "\<not> isalnum_char (CHR '' '')"
  by (simp add: isalnum_char_def code_point_def)

lemma alnum_no_space: "list_all isalnum_char s \<Longrightarrow> \<not> contains '' '' s"
  using space_not_alnum by (auto simp: contains_single list_all_iff)

lemma resolve_set_code_spec: "resolve_set_code hint sets = resolve_spec hint sets"
proof (cases hint)
  case None
  then show ?thesis
    by (simp add: resolve_set_code_def resolve_spec_def truthy_def)
next
  case (Some h)
  have code: "(2 < length s \<and> length s \<le> 5 \<and> isalnum s \<and> \<not> contains '' '' s) \<longleftrightarrow>
      (3 \<le> length s \<and> length s \<le> 5 \<and> list_all isalnum_char s)" for s
    using alnum_no_space [of s] by (auto simp: isalnum_def)
  show ?thesis
    unfolding resolve_set_code_def resolve_spec_def Some
    by (simp add: truthy_def get_or_def Let_def code exact_name_loop_find contains_loop_find
        split: option.splits)
qed

lemma build_identifiers_map: "build_identifiers rows sets = map (lookup_key_of sets) rows"
  by (induction rows) (simp_all add: lookup_key_of_def Let_def resolve_set_code_spec)

text \<open>
  C8. The identifier builder emits one lookup key for each row, in row order, and the
  key of a row is the one the priority of the specification chooses: the external
  identifier alone if the row has one; else set code and collector number when the set
  hint resolves and the row has a collector number; else name and set code when the
  hint resolves; else the name alone. The set-hint resolution of the code is the one
  the specification describes.
\<close>

theorem identifier_priority:
  "length (build_identifiers rows sets) = length rows \<and>
   (i < length rows \<longrightarrow> build_identifiers rows sets ! i = lookup_key_of sets (rows ! i)) \<and>
   resolve_set_code hint sets = resolve_spec hint sets"
  by (simp add: build_identifiers_map resolve_set_code_spec)

lemma key_eval:
  "lookup_key_of ex_sets (key_rows ! 0) = ById (Some ''abc-123'')"
  "lookup_key_of ex_sets (key_rows ! 1) = BySetNumber (Some ''cmd'') (Some ''259'')"
  "lookup_key_of ex_sets (key_rows ! 2) = ByNameSet ''Black Lotus'' (Some ''alpha'')"
  "lookup_key_of ex_sets (key_rows ! 3) = ByName ''Forest''"
  by code_simp+

lemma resolve_eval:
  "resolve_spec (Some ''Commander 2013'') ex_sets = Some ''c13''"
  "resolve_spec (Some ''commander'') ex_sets = Some ''cmd''"
  by code_simp+

theorem identifier_priority_witness:
  "build_identifiers key_rows ex_sets ! 0 = ById (Some ''abc-123'') \<and>
   build_identifiers key_rows ex_sets ! 1 = BySetNumber (Some ''cmd'') (Some ''259'') \<and>
   build_identifiers key_rows ex_sets ! 2 = ByNameSet ''Black Lotus'' (Some ''alpha'') \<and>
   build_identifiers key_rows ex_sets ! 3 = ByName ''Forest'' \<and>
   resolve_set_code (Some ''Commander 2013'') ex_sets = Some ''c13'' \<and>
   resolve_set_code (Some ''commander'') ex_sets = Some ''cmd''"
proof -
  have l: "length key_rows = 4"
    by (simp add: key_rows_def)
  show ?thesis
    using identifier_priority [of key_rows ex_sets 0 "Some ''Commander 2013''"]
      identifier_priority [of key_rows ex_sets 1 "Some ''commander''"]
      identifier_priority [of key_rows ex_sets 2]
      identifier_priority [of key_rows ex_sets 3] key_eval resolve_eval
    by (simp add: l)
qed

section \<open>The greedy matcher of the resolver\<close>

lemma assign_card_find:
  "assign_card rows sets card_obj idxs result =
     (case find (\<lambda>idx. result idx = None \<and> row_matches_card (rows ! idx) card_obj sets) idxs of
        None \<Rightarrow> result
      | Some idx \<Rightarrow> result(idx \<mapsto> from_scryfall card_obj))"
  by (induction idxs) auto

lemma find_upt_first:
  assumes "a \<le> j" "j < b" "P j" "\<forall>k. a \<le> k \<and> k < j \<longrightarrow> \<not> P k"
  shows "find P [a..<b] = Some j"
proof -
  have "\<exists>i<length [a..<b]. P ([a..<b] ! i) \<and> j = [a..<b] ! i \<and> (\<forall>k<i. \<not> P ([a..<b] ! k))"
    using assms by (intro exI [of _ "j - a"]) auto
  then show ?thesis
    by (simp only: find_Some_iff)
qed

lemma find_upt_none:
  assumes "\<forall>k. a \<le> k \<and> k < b \<longrightarrow> \<not> P k"
  shows "find P [a..<b] = None"
  using assms by (auto simp: find_None_iff)

lemma assign_card_keeps:
  "result idx = Some c \<Longrightarrow> assign_card rows sets card_obj idxs result idx = Some c"
  by (auto simp: assign_card_find split: option.splits dest: find_Some_iff [THEN iffD1])

lemma assign_card_outside:
  "idx \<notin> set idxs \<Longrightarrow> assign_card rows sets card_obj idxs result idx = result idx"
  by (induction idxs) auto

lemma match_batch_keeps:
  "result idx = Some c \<Longrightarrow> match_batch rows sets idxs data result idx = Some c"
  by (induction data arbitrary: result) (simp_all add: assign_card_keeps)

lemma match_batch_outside:
  "idx \<notin> set idxs \<Longrightarrow> match_batch rows sets idxs data result idx = result idx"
  by (induction data arbitrary: result) (simp_all add: assign_card_outside)

lemma match_batch_from_data:
  "result idx = None \<Longrightarrow> match_batch rows sets idxs data result idx = Some c \<Longrightarrow>
   c \<in> from_scryfall ` set data"
proof (induction data arbitrary: result)
  case Nil
  then show ?case by simp
next
  case (Cons d data)
  show ?case
  proof (cases "assign_card rows sets d idxs result idx")
    case None
    with Cons show ?thesis by auto
  next
    case (Some c')
    then have "match_batch rows sets idxs (d # data) result idx = Some c'"
      by (simp add: match_batch_keeps)
    with Cons.prems have "c' = c" by simp
    moreover from Some Cons.prems(1) have "c' = from_scryfall d"
      by (auto simp: assign_card_find split: option.splits if_splits)
    ultimately show ?thesis by simp
  qed
qed

lemma assign_card_same:
  assumes "same_unresolved idxs U r1 r2"
  shows "same_unresolved idxs U (assign_card rows sets d idxs r1) (assign_card rows sets d idxs r2)"
proof -
  let ?P = "\<lambda>r idx. r idx = None \<and> row_matches_card (rows ! idx) d sets"
  have "find (?P r1) idxs = find (?P r2) idxs"
    using assms by (intro find_cong) (auto simp: same_unresolved_def)
  moreover have "find (?P r1) idxs = Some j \<Longrightarrow> j \<in> set idxs" for j
    by (auto simp: find_Some_iff)
  ultimately show ?thesis
    using assms
    by (auto simp: assign_card_find same_unresolved_def split: option.splits)
qed

lemma match_batch_same:
  "same_unresolved idxs U r1 r2 \<Longrightarrow>
   same_unresolved idxs U (match_batch rows sets idxs data r1) (match_batch rows sets idxs data r2)"
  by (induction data arbitrary: r1 r2) (simp_all add: assign_card_same)

lemma match_batch_deterministic:
  assumes "\<forall>idx \<in> set idxs. r1 idx = None \<longleftrightarrow> r2 idx = None"
    and "idx \<in> set idxs" and "r1 idx = None"
  shows "match_batch rows sets idxs data r1 idx = match_batch rows sets idxs data r2 idx"
proof -
  have "same_unresolved idxs {i. r1 i = None} r1 r2"
    using assms(1) by (auto simp: same_unresolved_def)
  then have "same_unresolved idxs {i. r1 i = None}
      (match_batch rows sets idxs data r1) (match_batch rows sets idxs data r2)"
    by (rule match_batch_same)
  with assms(2,3) show ?thesis
    by (auto simp: same_unresolved_def)
qed

lemma match_batch_foldl:
  "match_batch rows sets idxs data result =
     foldl (\<lambda>res card_obj. assign_card rows sets card_obj idxs res) result data"
  by (induction data arbitrary: result) simp_all

lemma fetch_batches_step:
  assumes "lookup_batch (take MAX_BATCH (drop i identifiers)) = Inr data"
  shows "fetch_batches rows sets lookup_batch identifiers (i # starts) result =
     fetch_batches rows sets lookup_batch identifiers starts
       (match_batch rows sets
          [i..<min (i + length (take MAX_BATCH (drop i identifiers))) (length rows)] data result)"
  using assms by (simp add: Let_def)

text \<open>
  C3. For a batch with the row positions \<open>a\<close> up to \<open>b\<close>, one returned record is
  assigned to the least position that is not yet resolved and that the matcher
  accepts, and to no row when there is none. Over a whole batch a row that is resolved
  keeps its card, so a row receives at most one record; rows outside the batch are not
  touched; a card a row receives comes from a returned record. What an unresolved row
  of the batch receives depends only on which rows of the batch are unresolved: two
  runs on dictionaries with the same unresolved rows pair it with the same record.
  The batch loop is this assignment applied to every returned record, in the order
  returned, each on the dictionary the records before it left; for any list of
  positions the assignment takes the first position of the list that is unresolved
  and accepted; and the resolver runs the batch loop on the records returned for a
  batch, over the row positions of that batch in ascending order.
\<close>

theorem greedy_first_fit:
  "(a \<le> j \<and> j < b \<and> result j = None \<and> row_matches_card (rows ! j) card_obj sets \<and>
    (\<forall>k. a \<le> k \<and> k < j \<longrightarrow> result k \<noteq> None \<or> \<not> row_matches_card (rows ! k) card_obj sets) \<longrightarrow>
      assign_card rows sets card_obj [a..<b] result = result(j \<mapsto> from_scryfall card_obj)) \<and>
   ((\<forall>k. a \<le> k \<and> k < b \<longrightarrow> result k \<noteq> None \<or> \<not> row_matches_card (rows ! k) card_obj sets) \<longrightarrow>
      assign_card rows sets card_obj [a..<b] result = result) \<and>
   (result idx = Some c \<longrightarrow> match_batch rows sets idxs data result idx = Some c) \<and>
   (idx \<notin> set idxs \<longrightarrow> match_batch rows sets idxs data result idx = result idx) \<and>
   (result idx = None \<and> match_batch rows sets idxs data result idx = Some c \<longrightarrow>
      c \<in> from_scryfall ` set data) \<and>
   ((\<forall>i \<in> set idxs. r1 i = None \<longleftrightarrow> r2 i = None) \<and> idx \<in> set idxs \<and> r1 idx = None \<longrightarrow>
      match_batch rows sets idxs data r1 idx = match_batch rows sets idxs data r2 idx) \<and>
   match_batch rows sets idxs data result =
     foldl (\<lambda>res d. assign_card rows sets d idxs res) result data \<and>
   assign_card rows sets card_obj idxs result =
     (case find (\<lambda>i. result i = None \<and> row_matches_card (rows ! i) card_obj sets) idxs of
        None \<Rightarrow> result
      | Some i \<Rightarrow> result(i \<mapsto> from_scryfall card_obj)) \<and>
   (lookup_batch (take MAX_BATCH (drop start identifiers)) = Inr data \<longrightarrow>
      fetch_batches rows sets lookup_batch identifiers (start # starts) result =
        fetch_batches rows sets lookup_batch identifiers starts
          (match_batch rows sets
             [start..<min (start + length (take MAX_BATCH (drop start identifiers))) (length rows)]
             data result))"
proof (intro conjI impI)
  assume h: "a \<le> j \<and> j < b \<and> result j = None \<and> row_matches_card (rows ! j) card_obj sets \<and>
    (\<forall>k. a \<le> k \<and> k < j \<longrightarrow> result k \<noteq> None \<or> \<not> row_matches_card (rows ! k) card_obj sets)"
  then have "find (\<lambda>idx. result idx = None \<and> row_matches_card (rows ! idx) card_obj sets) [a..<b]
      = Some j"
    by (intro find_upt_first) auto
  then show "assign_card rows sets card_obj [a..<b] result = result(j \<mapsto> from_scryfall card_obj)"
    by (simp add: assign_card_find)
next
  assume "\<forall>k. a \<le> k \<and> k < b \<longrightarrow> result k \<noteq> None \<or> \<not> row_matches_card (rows ! k) card_obj sets"
  then have "find (\<lambda>idx. result idx = None \<and> row_matches_card (rows ! idx) card_obj sets) [a..<b]
      = None"
    by (intro find_upt_none) auto
  then show "assign_card rows sets card_obj [a..<b] result = result"
    by (simp add: assign_card_find)
next
  assume "result idx = Some c"
  then show "match_batch rows sets idxs data result idx = Some c"
    by (rule match_batch_keeps)
next
  assume "idx \<notin> set idxs"
  then show "match_batch rows sets idxs data result idx = result idx"
    by (rule match_batch_outside)
next
  assume "result idx = None \<and> match_batch rows sets idxs data result idx = Some c"
  then show "c \<in> from_scryfall ` set data"
    using match_batch_from_data by blast
next
  assume "(\<forall>i \<in> set idxs. r1 i = None \<longleftrightarrow> r2 i = None) \<and> idx \<in> set idxs \<and> r1 idx = None"
  then show "match_batch rows sets idxs data r1 idx = match_batch rows sets idxs data r2 idx"
    using match_batch_deterministic by blast
next
  show "match_batch rows sets idxs data result =
     foldl (\<lambda>res d. assign_card rows sets d idxs res) result data"
    by (rule match_batch_foldl)
next
  show "assign_card rows sets card_obj idxs result =
     (case find (\<lambda>i. result i = None \<and> row_matches_card (rows ! i) card_obj sets) idxs of
        None \<Rightarrow> result
      | Some i \<Rightarrow> result(i \<mapsto> from_scryfall card_obj))"
    by (rule assign_card_find)
next
  assume "lookup_batch (take MAX_BATCH (drop start identifiers)) = Inr data"
  then show "fetch_batches rows sets lookup_batch identifiers (start # starts) result =
        fetch_batches rows sets lookup_batch identifiers starts
          (match_batch rows sets
             [start..<min (start + length (take MAX_BATCH (drop start identifiers))) (length rows)]
             data result)"
    by (rule fetch_batches_step)
qed

lemma dup_match:
  "row_matches_card (dup_rows ! 0) forest_obj []"
  "row_matches_card (dup_rows ! 1) forest_obj []"
  "\<not> row_matches_card (dup_rows ! 0) island_obj []"
  "\<not> row_matches_card (dup_rows ! 1) island_obj []"
  by code_simp+

lemma dup_length: "length dup_rows = 2"
  by (simp add: dup_rows_def)

theorem greedy_first_fit_witness:
  "assign_card dup_rows [] forest_obj [0..<2] Map.empty = [0 \<mapsto> from_scryfall forest_obj] \<and>
   assign_card dup_rows [] forest_obj [0..<2] [0 \<mapsto> ex_forest] =
     [0 \<mapsto> ex_forest, 1 \<mapsto> from_scryfall forest_obj] \<and>
   assign_card dup_rows [] island_obj [0..<1] Map.empty = Map.empty \<and>
   match_batch dup_rows [] [0..<2] [forest_obj] [0 \<mapsto> ex_forest] 0 = Some ex_forest \<and>
   match_batch dup_rows [] [0..<2] [forest_obj] Map.empty 5 = None \<and>
   from_scryfall forest_obj \<in> from_scryfall ` set [forest_obj] \<and>
   match_batch dup_rows [] [0, 1] [forest_obj] [1 \<mapsto> ex_forest] 0 =
     match_batch dup_rows [] [0, 1] [forest_obj] [1 \<mapsto> ex_sol_ring] 0 \<and>
   match_batch dup_rows [] [0, 1] [forest_obj, island_obj, forest_obj] Map.empty =
     [0 \<mapsto> from_scryfall forest_obj, 1 \<mapsto> from_scryfall forest_obj] \<and>
   fetch_batches dup_rows [] (\<lambda>batch. Inr [forest_obj, island_obj, forest_obj])
     [ByName ''Forest'', ByName ''Forest''] [0] Map.empty =
     Inr [0 \<mapsto> from_scryfall forest_obj, 1 \<mapsto> from_scryfall forest_obj]"
proof -
  have m: "match_batch dup_rows [] [0..<2] [forest_obj] Map.empty 0 = Some (from_scryfall forest_obj)"
    using dup_match by (simp add: upt_conv_Cons)
  have f: "foldl (\<lambda>res d. assign_card dup_rows [] d [0, 1] res) Map.empty
      [forest_obj, island_obj, forest_obj] =
      [0 \<mapsto> from_scryfall forest_obj, 1 \<mapsto> from_scryfall forest_obj]"
    using dup_match by simp
  have u: "[0..<min (0 + length (take MAX_BATCH (drop 0 [ByName ''Forest'', ByName ''Forest'']))) (length dup_rows)]
      = [0, 1]"
    by (simp add: MAX_BATCH_def dup_length upt_conv_Cons)
  show ?thesis
    using greedy_first_fit [of 0 0 2 Map.empty dup_rows forest_obj "[]"]
      greedy_first_fit [of 0 1 2 "[0 \<mapsto> ex_forest]" dup_rows forest_obj "[]"]
      greedy_first_fit [of 0 _ 1 Map.empty dup_rows island_obj "[]"]
      greedy_first_fit [of _ _ _ "[0 \<mapsto> ex_forest]" dup_rows _ "[]" 0 ex_forest "[0..<2]"
        "[forest_obj]"]
      greedy_first_fit [of _ _ _ Map.empty dup_rows _ "[]" 5 "from_scryfall forest_obj" "[0..<2]"
        "[forest_obj]"]
      greedy_first_fit [of _ _ _ Map.empty dup_rows _ "[]" 0 "from_scryfall forest_obj" "[0..<2]"
        "[forest_obj]"]
      greedy_first_fit [of _ _ _ _ dup_rows _ "[]" 0 _ "[0, 1]" "[forest_obj]"
        "[1 \<mapsto> ex_forest]" "[1 \<mapsto> ex_sol_ring]"]
      greedy_first_fit [of _ _ _ Map.empty dup_rows _ "[]" _ _ "[0, 1]"
        "[forest_obj, island_obj, forest_obj]" _ _
        "\<lambda>batch. Inr [forest_obj, island_obj, forest_obj]" 0
        "[ByName ''Forest'', ByName ''Forest'']" "[]"]
      dup_match m f u
    by simp
qed

section \<open>Loading the deck list\<close>
















end
